theory Spec2Isabelle
  imports Complex_Main
begin

section \<open>JavaScript numbers\<close>

text \<open>
  The calculators of \<^verbatim>\<open>FinancialPlanning.tsx\<close> and \<^verbatim>\<open>PortfolioAnalyzer.tsx\<close>
  compute on the JavaScript type \<^verbatim>\<open>number\<close>. A number is modelled as an exact real, or one
  of the three special values that a division by zero and \<^verbatim>\<open>Math.pow\<close> can produce.
  Rounding and overflow of the binary64 format are not modelled, and zero carries no sign
  (a zero divisor behaves as \<^verbatim>\<open>+0\<close>). The operations below follow the ECMAScript
  rules for the special values.
\<close>

datatype jsnum = Fin real | PosInf | NegInf | NaN

fun is_fin :: "jsnum \<Rightarrow> bool" where
  "is_fin (Fin x) = True"
| "is_fin PosInf = False"
| "is_fin NegInf = False"
| "is_fin NaN = False"

fun js_neg :: "jsnum \<Rightarrow> jsnum" where
  "js_neg (Fin x) = Fin (- x)"
| "js_neg PosInf = NegInf"
| "js_neg NegInf = PosInf"
| "js_neg NaN = NaN"

text \<open>\<^verbatim>\<open>a + b\<close>\<close>

fun js_add :: "jsnum \<Rightarrow> jsnum \<Rightarrow> jsnum" where
  "js_add NaN b = NaN"
| "js_add a NaN = NaN"
| "js_add (Fin x) (Fin y) = Fin (x + y)"
| "js_add PosInf NegInf = NaN"
| "js_add NegInf PosInf = NaN"
| "js_add PosInf b = PosInf"
| "js_add NegInf b = NegInf"
| "js_add (Fin x) PosInf = PosInf"
| "js_add (Fin x) NegInf = NegInf"

text \<open>\<^verbatim>\<open>a - b\<close>\<close>

definition js_sub :: "jsnum \<Rightarrow> jsnum \<Rightarrow> jsnum" where
  "js_sub a b = js_add a (js_neg b)"

text \<open>The sign of an infinity multiplied or divided by a number of the sign of \<open>x\<close>.\<close>

definition signed_inf :: "jsnum \<Rightarrow> real \<Rightarrow> jsnum" where
  "signed_inf i x = (if x < 0 then js_neg i else i)"

text \<open>\<^verbatim>\<open>a * b\<close>\<close>

fun js_mul :: "jsnum \<Rightarrow> jsnum \<Rightarrow> jsnum" where
  "js_mul NaN b = NaN"
| "js_mul a NaN = NaN"
| "js_mul (Fin x) (Fin y) = Fin (x * y)"
| "js_mul (Fin x) PosInf = (if x = 0 then NaN else signed_inf PosInf x)"
| "js_mul (Fin x) NegInf = (if x = 0 then NaN else signed_inf NegInf x)"
| "js_mul PosInf (Fin y) = (if y = 0 then NaN else signed_inf PosInf y)"
| "js_mul NegInf (Fin y) = (if y = 0 then NaN else signed_inf NegInf y)"
| "js_mul PosInf PosInf = PosInf"
| "js_mul PosInf NegInf = NegInf"
| "js_mul NegInf PosInf = NegInf"
| "js_mul NegInf NegInf = PosInf"

text \<open>\<^verbatim>\<open>a / b\<close>: a zero divisor yields \<^verbatim>\<open>NaN\<close> for \<^verbatim>\<open>0 / 0\<close> and an infinity otherwise.\<close>

fun js_div :: "jsnum \<Rightarrow> jsnum \<Rightarrow> jsnum" where
  "js_div NaN b = NaN"
| "js_div a NaN = NaN"
| "js_div (Fin x) (Fin y) =
     (if y = 0 then (if x = 0 then NaN else signed_inf PosInf x) else Fin (x / y))"
| "js_div (Fin x) PosInf = Fin 0"
| "js_div (Fin x) NegInf = Fin 0"
| "js_div PosInf (Fin y) = signed_inf PosInf y"
| "js_div NegInf (Fin y) = signed_inf NegInf y"
| "js_div PosInf b = NaN"
| "js_div NegInf b = NaN"

text \<open>\<^verbatim>\<open>a < b\<close>, \<^verbatim>\<open>a > b\<close>, \<^verbatim>\<open>a >= b\<close>: every comparison with \<^verbatim>\<open>NaN\<close> is false.\<close>

fun js_lt :: "jsnum \<Rightarrow> jsnum \<Rightarrow> bool" where
  "js_lt NaN b = False"
| "js_lt a NaN = False"
| "js_lt (Fin x) (Fin y) = (x < y)"
| "js_lt a NegInf = False"
| "js_lt PosInf b = False"
| "js_lt NegInf b = True"
| "js_lt (Fin x) PosInf = True"

definition js_gt :: "jsnum \<Rightarrow> jsnum \<Rightarrow> bool" where
  "js_gt a b = js_lt b a"


text \<open>\<^verbatim>\<open>Math.min\<close>, \<^verbatim>\<open>Math.max\<close>: \<^verbatim>\<open>NaN\<close> if an argument is \<^verbatim>\<open>NaN\<close>.\<close>

definition js_min :: "jsnum \<Rightarrow> jsnum \<Rightarrow> jsnum" where
  "js_min a b = (if a = NaN \<or> b = NaN then NaN else if js_lt b a then b else a)"

definition js_max :: "jsnum \<Rightarrow> jsnum \<Rightarrow> jsnum" where
  "js_max a b = (if a = NaN \<or> b = NaN then NaN else if js_lt a b then b else a)"

text \<open>\<^verbatim>\<open>Math.ceil\<close>\<close>

fun js_ceil :: "jsnum \<Rightarrow> jsnum" where
  "js_ceil (Fin x) = Fin (of_int \<lceil>x\<rceil>)"
| "js_ceil a = a"

text \<open>
  \<^verbatim>\<open>Math.pow\<close> on finite arguments: an integral exponent is a repeated product (or its
  reciprocal), a negative base with a fractional exponent is \<^verbatim>\<open>NaN\<close>, and a zero base
  with a negative exponent is \<^verbatim>\<open>Infinity\<close>.
\<close>

definition pow_fin :: "real \<Rightarrow> real \<Rightarrow> jsnum" where
  "pow_fin x y =
     (if y = 0 then Fin 1
      else if x = 0 then (if 0 < y then Fin 0 else PosInf)
      else if y = of_int \<lfloor>y\<rfloor> then Fin (power_int x \<lfloor>y\<rfloor>)
      else if x < 0 then NaN
      else Fin (x powr y))"

text \<open>\<^verbatim>\<open>Math.pow\<close> with the special values among its arguments.\<close>

fun js_pow :: "jsnum \<Rightarrow> jsnum \<Rightarrow> jsnum" where
  "js_pow (Fin x) (Fin y) = pow_fin x y"
| "js_pow a NaN = NaN"
| "js_pow NaN (Fin y) = (if y = 0 then Fin 1 else NaN)"
| "js_pow NaN b = NaN"
| "js_pow (Fin x) PosInf =
     (if \<bar>x\<bar> = 1 then NaN else if 1 < \<bar>x\<bar> then PosInf else Fin 0)"
| "js_pow (Fin x) NegInf =
     (if \<bar>x\<bar> = 1 then NaN else if 1 < \<bar>x\<bar> then Fin 0 else PosInf)"
| "js_pow PosInf (Fin y) = (if y = 0 then Fin 1 else if 0 < y then PosInf else Fin 0)"
| "js_pow PosInf PosInf = PosInf"
| "js_pow PosInf NegInf = Fin 0"
| "js_pow NegInf (Fin y) =
     (if y = 0 then Fin 1
      else if y < 0 then Fin 0
      else if y = of_int \<lfloor>y\<rfloor> \<and> odd \<lfloor>y\<rfloor> then NegInf else PosInf)"
| "js_pow NegInf PosInf = PosInf"
| "js_pow NegInf NegInf = Fin 0"

section \<open>The retirement calculator\<close>

text \<open>
  The form state \<^verbatim>\<open>retirementData\<close>. Every field is set by
  \<^verbatim>\<open>Number(e.target.value)\<close> from an \<^verbatim>\<open>input type="number"\<close>, whose value is a valid
  number or the empty string (read as 0): the fields are finite numbers, not
  necessarily integral or positive.
\<close>

record RetirementData =
  currentAge :: real
  retirementAge :: real
  currentSavings :: real
  monthlyContribution :: real
  expectedReturn :: real
  currentIncome :: real
  replaceIncome :: real

record RetirementResult =
  totalAtRetirement :: jsnum
  neededCapital :: jsnum
  surplus :: jsnum
  monthlyIncomeAtRetirement :: jsnum

text \<open>The local constants of \<^verbatim>\<open>calculateRetirement\<close>, in the order of the source.\<close>

definition ret_yearsToRetirement :: "RetirementData \<Rightarrow> jsnum" where
  "ret_yearsToRetirement d = js_sub (Fin (retirementAge d)) (Fin (currentAge d))"

definition ret_monthsToRetirement :: "RetirementData \<Rightarrow> jsnum" where
  "ret_monthsToRetirement d = js_mul (ret_yearsToRetirement d) (Fin 12)"

definition ret_monthlyReturn :: "RetirementData \<Rightarrow> jsnum" where
  "ret_monthlyReturn d = js_div (js_div (Fin (expectedReturn d)) (Fin 100)) (Fin 12)"

definition ret_futureCurrentSavings :: "RetirementData \<Rightarrow> jsnum" where
  "ret_futureCurrentSavings d =
     js_mul (Fin (currentSavings d))
       (js_pow (js_add (Fin 1) (js_div (Fin (expectedReturn d)) (Fin 100)))
          (ret_yearsToRetirement d))"

definition ret_futureContributions :: "RetirementData \<Rightarrow> jsnum" where
  "ret_futureContributions d =
     js_mul (Fin (RetirementData.monthlyContribution d))
       (js_div
          (js_sub (js_pow (js_add (Fin 1) (ret_monthlyReturn d)) (ret_monthsToRetirement d))
             (Fin 1))
          (ret_monthlyReturn d))"

definition calculateRetirement :: "RetirementData \<Rightarrow> RetirementResult" where
  "calculateRetirement d =
     (let totalAtRetirement = js_add (ret_futureCurrentSavings d) (ret_futureContributions d);
          neededIncome =
            js_div (js_mul (Fin (currentIncome d)) (Fin (replaceIncome d))) (Fin 100);
          annualNeed = neededIncome;
          neededCapital = js_mul annualNeed (Fin 25)
      in \<lparr> totalAtRetirement = totalAtRetirement,
           neededCapital = neededCapital,
           surplus = js_sub totalAtRetirement neededCapital,
           monthlyIncomeAtRetirement =
             js_div (js_mul totalAtRetirement (Fin (4 / 100))) (Fin 12) \<rparr>)"

section \<open>The goal calculator\<close>

datatype RiskTolerance = conservative | moderate | aggressive

text \<open>
  The form state \<^verbatim>\<open>goalData\<close> (the goal's name plays no part in the calculation).
  Field names shared between the records of this file are written qualified,
  as in \<open>GoalData.monthlyContribution\<close>.
\<close>

record GoalData =
  targetAmount :: real
  currentAmount :: real
  monthlyContribution :: real
  timeHorizon :: real
  riskTolerance :: RiskTolerance

record Allocation =
  stocks :: jsnum
  bonds :: jsnum
  cash :: jsnum

record PlanningResult =
  monthsToGoal :: jsnum
  totalContributions :: jsnum
  expectedReturns :: jsnum
  recommendedAllocation :: Allocation

text \<open>The two lookup tables of \<^verbatim>\<open>calculateGoal\<close>.\<close>

fun returnRates :: "RiskTolerance \<Rightarrow> jsnum" where
  "returnRates conservative = Fin 4"
| "returnRates moderate = Fin 7"
| "returnRates aggressive = Fin 10"

fun allocations :: "RiskTolerance \<Rightarrow> Allocation" where
  "allocations conservative = \<lparr> stocks = Fin 30, bonds = Fin 60, cash = Fin 10 \<rparr>"
| "allocations moderate = \<lparr> stocks = Fin 60, bonds = Fin 30, cash = Fin 10 \<rparr>"
| "allocations aggressive = \<lparr> stocks = Fin 80, bonds = Fin 15, cash = Fin 5 \<rparr>"

text \<open>The local constants of \<^verbatim>\<open>calculateGoal\<close>.\<close>

definition goal_remaining :: "GoalData \<Rightarrow> jsnum" where
  "goal_remaining g = js_sub (Fin (targetAmount g)) (Fin (currentAmount g))"

definition goal_expectedReturn :: "GoalData \<Rightarrow> jsnum" where
  "goal_expectedReturn g = returnRates (riskTolerance g)"

definition goal_monthlyReturn :: "GoalData \<Rightarrow> jsnum" where
  "goal_monthlyReturn g = js_div (js_div (goal_expectedReturn g) (Fin 100)) (Fin 12)"

text \<open>The quotient \<^verbatim>\<open>(Math.pow(1 + monthlyReturn, timeHorizon) - 1) / monthlyReturn\<close>.\<close>

definition goal_annuity :: "GoalData \<Rightarrow> jsnum" where
  "goal_annuity g =
     js_div
       (js_sub (js_pow (js_add (Fin 1) (goal_monthlyReturn g)) (Fin (timeHorizon g))) (Fin 1))
       (goal_monthlyReturn g)"

definition goal_futureValue :: "GoalData \<Rightarrow> jsnum" where
  "goal_futureValue g =
     js_add
       (js_mul (Fin (currentAmount g))
          (js_pow (js_add (Fin 1) (js_div (goal_expectedReturn g) (Fin 100)))
             (js_div (Fin (timeHorizon g)) (Fin 12))))
       (js_mul (Fin (GoalData.monthlyContribution g)) (goal_annuity g))"

definition calculateGoal :: "GoalData \<Rightarrow> PlanningResult" where
  "calculateGoal g =
     (let monthsToGoal = js_ceil (js_div (goal_remaining g) (Fin (GoalData.monthlyContribution g)))
      in \<lparr> monthsToGoal = monthsToGoal,
           totalContributions = js_mul (Fin (GoalData.monthlyContribution g)) (Fin (timeHorizon g)),
           expectedReturns =
             js_sub (js_sub (goal_futureValue g) (Fin (currentAmount g)))
               (js_mul (Fin (GoalData.monthlyContribution g)) (Fin (timeHorizon g))),
           recommendedAllocation = allocations (riskTolerance g) \<rparr>)"

section \<open>The compound interest calculator\<close>

text \<open>The form state \<^verbatim>\<open>compoundData\<close>.\<close>

record CompoundData =
  principal :: real
  monthlyContribution :: real
  annualReturn :: real
  years :: real

record CompoundResult =
  totalValue :: jsnum
  totalContributions :: jsnum
  totalEarnings :: jsnum
  returnMultiple :: jsnum






section \<open>The portfolio metrics\<close>

text \<open>
  A holding of \<^verbatim>\<open>PortfolioAnalyzer.tsx\<close>. The numeric fields hold finite numbers:
  the initial holdings are literals, and \<^verbatim>\<open>addHolding\<close> parses the fields of a form
  of numeric inputs.
\<close>

record Holding =
  symbol :: string
  shares :: real
  avgPrice :: real
  currentPrice :: real

record PortfolioMetrics =
  totalValue :: jsnum
  totalGainLoss :: jsnum
  totalGainLossPercent :: jsnum
  riskScore :: jsnum
  diversificationScore :: jsnum

text \<open>
  The \<^verbatim>\<open>forEach\<close> loop of \<^verbatim>\<open>calculateMetrics\<close>: it carries the two accumulators
  \<^verbatim>\<open>totalValue\<close> and \<^verbatim>\<open>totalCost\<close> through the holdings, first to last.
\<close>

fun accumulate :: "jsnum \<times> jsnum \<Rightarrow> Holding list \<Rightarrow> jsnum \<times> jsnum" where
  "accumulate (accValue, accCost) [] = (accValue, accCost)"
| "accumulate (accValue, accCost) (holding # rest) =
     accumulate
       (js_add accValue (js_mul (Fin (shares holding)) (Fin (currentPrice holding))),
        js_add accCost (js_mul (Fin (shares holding)) (Fin (avgPrice holding))))
       rest"

text \<open>The local variable \<^verbatim>\<open>totalCost\<close> after the loop; it is not part of the result.\<close>

definition metrics_totalCost :: "Holding list \<Rightarrow> jsnum" where
  "metrics_totalCost holdings = snd (accumulate (Fin 0, Fin 0) holdings)"

definition calculateMetrics :: "Holding list \<Rightarrow> PortfolioMetrics" where
  "calculateMetrics holdings =
     (let totalValue = fst (accumulate (Fin 0, Fin 0) holdings);
          totalCost = metrics_totalCost holdings;
          totalGainLoss = js_sub totalValue totalCost;
          totalGainLossPercent =
            (if js_gt totalCost (Fin 0)
             then js_mul (js_div totalGainLoss totalCost) (Fin 100)
             else Fin 0);
          riskScore =
            js_min (Fin 100)
              (js_max (Fin 0) (js_add (Fin 50) (js_mul totalGainLossPercent (Fin 2))));
          diversificationScore =
            js_min (Fin 100) (js_mul (Fin (real (length holdings))) (Fin 20))
      in \<lparr> totalValue = totalValue,
           totalGainLoss = totalGainLoss,
           totalGainLossPercent = totalGainLossPercent,
           riskScore = riskScore,
           diversificationScore = diversificationScore \<rparr>)"

section \<open>The initial form states\<close>

text \<open>The arguments of \<^verbatim>\<open>useState\<close>: what the calculators compute on before any edit.\<close>

definition initialRetirementData :: RetirementData where
  "initialRetirementData =
     \<lparr> currentAge = 30, retirementAge = 65, currentSavings = 50000,
       monthlyContribution = 1000, expectedReturn = 7, currentIncome = 75000,
       replaceIncome = 80 \<rparr>"





section \<open>Facts about the number operations\<close>

lemma js_add_NaN_right: "js_add a NaN = NaN"
  by (cases a) simp_all

lemma js_mul_NaN_right: "js_mul a NaN = NaN"
  by (cases a) simp_all

text \<open>On a positive base \<^verbatim>\<open>Math.pow\<close> is the real power, whatever the exponent.\<close>

lemma pow_fin_pos: "0 < x \<Longrightarrow> pow_fin x y = Fin (x powr y)"
proof -
  assume x: "0 < x"
  have "power_int x \<lfloor>y\<rfloor> = x powr y" if "y = of_int \<lfloor>y\<rfloor>"
  proof -
    have "x powr (of_int \<lfloor>y\<rfloor>) = power_int x \<lfloor>y\<rfloor>"
      using x by (simp add: powr_real_of_int' power_int_def)
    then show ?thesis using that by simp
  qed
  then show ?thesis using x by (auto simp: pow_fin_def)
qed

lemma pow_fin_one: "pow_fin 1 y = Fin 1"
  by (simp add: pow_fin_pos)



section \<open>The retirement calculator at a zero rate\<close>

text \<open>
  C1, as the specification states it: with \<open>retirementAge > currentAge\<close> and
  \<open>expectedReturn = 0\<close> the total at retirement is the finite number
  \<open>currentSavings + monthlyContribution * monthsToRetirement\<close>. On the initial form
  state with the expected return set to 0 the total is \<^verbatim>\<open>NaN\<close> instead, so it is
  neither finite nor equal to \<open>50000 + 1000 * 420\<close>.
\<close>

theorem calculateRetirement_zero_rate_counterexample:
  "currentAge (initialRetirementData\<lparr>expectedReturn := 0\<rparr>)
     < retirementAge (initialRetirementData\<lparr>expectedReturn := 0\<rparr>)
   \<and> expectedReturn (initialRetirementData\<lparr>expectedReturn := 0\<rparr>) = 0
   \<and> \<not> is_fin (totalAtRetirement
         (calculateRetirement (initialRetirementData\<lparr>expectedReturn := 0\<rparr>)))
   \<and> totalAtRetirement (calculateRetirement (initialRetirementData\<lparr>expectedReturn := 0\<rparr>))
       \<noteq> Fin (50000 + 1000 * ((65 - 30) * 12))"
  by (simp add: initialRetirementData_def calculateRetirement_def Let_def
      ret_futureContributions_def ret_monthlyReturn_def ret_monthsToRetirement_def
      ret_yearsToRetirement_def ret_futureCurrentSavings_def js_sub_def pow_fin_def)

text \<open>
  C1, amended: for every retirement input with \<open>expectedReturn = 0\<close>, whatever the ages,
  \<^verbatim>\<open>calculateRetirement\<close> has no special case for the zero rate. The monthly return
  is 0, the annuity quotient is \<^verbatim>\<open>0 / 0\<close>, and the future contributions, the total at
  retirement, the surplus and the monthly income at retirement are all \<^verbatim>\<open>NaN\<close>.
\<close>

theorem calculateRetirement_zero_rate:
  assumes "expectedReturn d = 0"
  shows "ret_monthlyReturn d = Fin 0
    \<and> ret_futureContributions d = NaN
    \<and> totalAtRetirement (calculateRetirement d) = NaN
    \<and> surplus (calculateRetirement d) = NaN
    \<and> monthlyIncomeAtRetirement (calculateRetirement d) = NaN"
  using assms
  by (simp add: calculateRetirement_def Let_def ret_futureContributions_def
      ret_monthlyReturn_def ret_monthsToRetirement_def ret_yearsToRetirement_def
      js_sub_def pow_fin_one js_mul_NaN_right js_add_NaN_right)

theorem calculateRetirement_zero_rate_witness:
  "expectedReturn (initialRetirementData\<lparr>expectedReturn := 0\<rparr>) = 0
   \<and> totalAtRetirement (calculateRetirement (initialRetirementData\<lparr>expectedReturn := 0\<rparr>))
       = NaN"
  using calculateRetirement_zero_rate [of "initialRetirementData\<lparr>expectedReturn := 0\<rparr>"]
  by simp

section \<open>The retirement total and the grown savings\<close>




section \<open>The goal calculator: months to the goal\<close>







section \<open>The goal calculator: allocation and rate\<close>

text \<open>
  C7: the recommended allocation of \<^verbatim>\<open>calculateGoal\<close> is the table entry of the risk
  tolerance - conservative 30/60/10, moderate 60/30/10, aggressive 80/15/5 for stocks,
  bonds and cash - and its three percentages add up to 100 in every tier.
\<close>

theorem calculateGoal_allocation:
  "recommendedAllocation (calculateGoal g) =
     (case riskTolerance g of
        conservative \<Rightarrow> \<lparr> stocks = Fin 30, bonds = Fin 60, cash = Fin 10 \<rparr>
      | moderate \<Rightarrow> \<lparr> stocks = Fin 60, bonds = Fin 30, cash = Fin 10 \<rparr>
      | aggressive \<Rightarrow> \<lparr> stocks = Fin 80, bonds = Fin 15, cash = Fin 5 \<rparr>)
   \<and> js_add (js_add (stocks (recommendedAllocation (calculateGoal g)))
                (bonds (recommendedAllocation (calculateGoal g))))
         (cash (recommendedAllocation (calculateGoal g))) = Fin 100"
  by (cases "riskTolerance g") (simp_all add: calculateGoal_def Let_def)


section \<open>The compound interest calculator: results\<close>





section \<open>The portfolio metrics: totals and scores\<close>












text \<open>
  C10: on the empty list of holdings every field of the result is a finite number: total
  value 0, gain 0, gain percentage 0 (the division is skipped, as the total cost is not
  positive), risk score 50 and diversification score 0.
\<close>

theorem calculateMetrics_empty:
  "PortfolioMetrics.totalValue (calculateMetrics []) = Fin 0
   \<and> totalGainLoss (calculateMetrics []) = Fin 0
   \<and> totalGainLossPercent (calculateMetrics []) = Fin 0
   \<and> riskScore (calculateMetrics []) = Fin 50
   \<and> diversificationScore (calculateMetrics []) = Fin 0"
  by (simp add: calculateMetrics_def Let_def metrics_totalCost_def js_sub_def js_gt_def
      js_min_def js_max_def)

end
